theory Spec2Isabelle
  imports Main "HOL-Library.AList" "HOL-Library.Sublist"
begin

section \<open>JSON values\<close>

text \<open>
  The values that \<^verbatim>\<open>res.json(...)\<close> is given: the object literals of the handler and
  the data obtained from \<^verbatim>\<open>weatherResponse.json()\<close>. An object keeps its members in
  property order. Numbers are the integers (the handler itself only ever builds the
  number \<^verbatim>\<open>weatherResponse.status\<close>).
\<close>

datatype json =
    JNull
  | JBool bool
  | JNum int
  | JStr string
  | JArr "json list"
  | JObj "(string \<times> json) list"

section \<open>The weather proxy: api/weather.js\<close>

subsection \<open>What the handler is given\<close>

text \<open>The handler reads one field of the request, \<^verbatim>\<open>req.method\<close> (here \<open>req_method\<close>).\<close>

record request = req_method :: string

text \<open>\<^verbatim>\<open>process.env\<close>: a variable is either undefined or a string.\<close>

type_synonym env = "string \<rightharpoonup> string"

text \<open>
  JavaScript truthiness of \<^verbatim>\<open>process.env.X\<close>: \<^verbatim>\<open>undefined\<close> and the empty string are
  falsy, every other string is truthy.
\<close>

fun truthy :: "string option \<Rightarrow> bool" where
  "truthy None = False"
| "truthy (Some s) = (s \<noteq> [])"

text \<open>A thrown \<^verbatim>\<open>Error\<close>: the two fields the catch block reads.\<close>

record js_error =
  message :: string
  stack :: string

text \<open>
  The outbound call. \<^verbatim>\<open>await fetch(url, {headers})\<close> either rejects or resolves to a
  response with a status; reading the body of that response (\<^verbatim>\<open>text()\<close>,
  \<^verbatim>\<open>json()\<close>) either rejects or yields the body text.
\<close>

record fetch_request =
  url :: string
  request_headers :: "(string \<times> string) list"

datatype body_read = BodyFails js_error | BodyText string

datatype fetch_outcome = FetchThrows js_error | FetchResponse nat body_read

text \<open>
  The platform around one invocation: the upstream as seen through \<^verbatim>\<open>fetch\<close>, the
  JSON parser behind \<^verbatim>\<open>Response.json()\<close> (which throws a SyntaxError or returns the
  value), and the clock behind \<^verbatim>\<open>new Date().toISOString()\<close>.
\<close>

record world =
  fetch :: "fetch_request \<Rightarrow> fetch_outcome"
  json_parse :: "string \<Rightarrow> js_error + json"
  now_iso :: string

subsection \<open>The response object\<close>

datatype payload = NoBody | JsonBody json

text \<open>
  \<^verbatim>\<open>res\<close>: the status code, the headers set so far and what has been sent
  (\<open>None\<close> until \<^verbatim>\<open>end()\<close> or \<^verbatim>\<open>json()\<close> is called). Only the headers that the
  handler sets itself are modelled.
\<close>

record res =
  statusCode :: nat
  headers :: "(string \<times> string) list"
  sent :: "payload option"

definition fresh_res :: res where
  "fresh_res = \<lparr>statusCode = 200, headers = [], sent = None\<rparr>"

definition setHeader :: "string \<Rightarrow> string \<Rightarrow> res \<Rightarrow> res" where
  "setHeader name val r = r\<lparr>headers := AList.update name val (headers r)\<rparr>"

definition status :: "nat \<Rightarrow> res \<Rightarrow> res" where
  "status code r = r\<lparr>statusCode := code\<rparr>"

definition end_res :: "res \<Rightarrow> res" where
  "end_res r = r\<lparr>sent := Some NoBody\<rparr>"

definition json_res :: "json \<Rightarrow> res \<Rightarrow> res" where
  "json_res j r = r\<lparr>sent := Some (JsonBody j)\<rparr>"

definition header :: "res \<Rightarrow> string \<Rightarrow> string option" where
  "header r name = map_of (headers r) name"

subsection \<open>Server-side log and outbound calls\<close>

datatype log_arg = LStr string | LNum nat | LObj "(string \<times> string) list"

text \<open>
  What one invocation leaves behind: the response, the \<^verbatim>\<open>console.error\<close> calls (each
  with its arguments) and the requests handed to \<^verbatim>\<open>fetch\<close>.
\<close>

record outcome =
  response :: res
  log :: "log_arg list list"
  calls :: "fetch_request list"

text \<open>One \<^verbatim>\<open>console.error(...)\<close> call, as the log of a run that makes no other.\<close>

definition console_error :: "log_arg list \<Rightarrow> log_arg list list" where
  "console_error args = [args]"

subsection \<open>encodeURIComponent\<close>

definition hex_digit :: "nat \<Rightarrow> char" where
  "hex_digit n = (''0123456789ABCDEF'' ! (n mod 16))"

definition in_range :: "char \<Rightarrow> char \<Rightarrow> char \<Rightarrow> bool" where
  "in_range lo hi c = ((of_char lo :: nat) \<le> of_char c \<and> (of_char c :: nat) \<le> of_char hi)"

definition uri_unreserved :: "char \<Rightarrow> bool" where
  "uri_unreserved c =
     (in_range CHR ''A'' CHR ''Z'' c \<or> in_range CHR ''a'' CHR ''z'' c \<or>
      in_range CHR ''0'' CHR ''9'' c \<or> c \<in> set ''-_.!~*'' \<or> c = CHR 0x27 \<or>
      c \<in> set ''()'')"

text \<open>Strings are byte strings (UTF-8), so every other byte is escaped as \<^verbatim>\<open>%XX\<close>.\<close>

definition encodeURIComponent :: "string \<Rightarrow> string" where
  "encodeURIComponent s =
     concat (map (\<lambda>c. if uri_unreserved c then [c]
                       else [CHR ''%'', hex_digit (of_char c div 16), hex_digit (of_char c)]) s)"

subsection \<open>The handler\<close>

definition ok :: "nat \<Rightarrow> bool" where
  "ok st = (200 \<le> st \<and> st \<le> 299)"

definition location :: string where
  "location = ''Balangkayan,Eastern Samar,Philippines''"

definition upstream_request :: "string \<Rightarrow> fetch_request" where
  "upstream_request apiKey =
     \<lparr>url = ''https://api.weatherapi.com/v1/forecast.json?key='' @ apiKey @ ''&q='' @
              encodeURIComponent location @ ''&days=1&aqi=no&alerts=yes'',
      request_headers = [(''User-Agent'', ''BSHS-Weather-Service/1.0'')]\<rparr>"

definition method_not_allowed_body :: json where
  "method_not_allowed_body =
     JObj [(''error'', JStr ''Method not allowed''),
           (''message'', JStr ''Only GET requests are supported'')]"

definition not_configured_body :: json where
  "not_configured_body =
     JObj [(''error'', JStr ''Server configuration error''),
           (''message'', JStr ''Weather service is not properly configured'')]"

definition upstream_error_body :: "nat \<Rightarrow> json" where
  "upstream_error_body st =
     JObj [(''error'', JStr ''Weather API error''),
           (''message'', JStr ''Unable to fetch weather data from provider''),
           (''status'', JNum (int st))]"

definition unavailable_body :: json where
  "unavailable_body =
     JObj [(''error'', JStr ''Failed to fetch weather data''),
           (''message'', JStr
              ''The weather service is temporarily unavailable. Please try again later.'')]"

text \<open>
  The \<^verbatim>\<open>catch (error)\<close> block. Nothing is logged inside \<^verbatim>\<open>try\<close> before a throw, so
  its log entry is the only one of such a run; \<open>cs\<close> are the outbound calls made so far.
\<close>

definition catch_block :: "world \<Rightarrow> fetch_request list \<Rightarrow> res \<Rightarrow> js_error \<Rightarrow> outcome" where
  "catch_block w cs r e =
     \<lparr>response = json_res unavailable_body (status 500 r),
      log = console_error
              [LStr ''Weather proxy error:'',
               LObj [(''message'', message e), (''stack'', stack e),
                     (''timestamp'', now_iso w)]],
      calls = cs\<rparr>"

text \<open>The \<^verbatim>\<open>try\<close> block: everything from the \<^verbatim>\<open>fetch\<close> on.\<close>

definition try_block :: "world \<Rightarrow> string \<Rightarrow> res \<Rightarrow> outcome" where
  "try_block w apiKey r =
     (let rq = upstream_request apiKey in
      case fetch w rq of
        FetchThrows e \<Rightarrow> catch_block w [rq] r e
      | FetchResponse st body \<Rightarrow>
          if \<not> ok st then
            (case body of
               BodyFails e \<Rightarrow> catch_block w [rq] r e
             | BodyText errorText \<Rightarrow>
                 \<lparr>response = json_res (upstream_error_body st) (status st r),
                  log = console_error [LStr ''Weather API error:'', LNum st, LStr errorText],
                  calls = [rq]\<rparr>)
          else
            (case body of
               BodyFails e \<Rightarrow> catch_block w [rq] r e
             | BodyText t \<Rightarrow>
                 (case json_parse w t of
                    Inl e \<Rightarrow> catch_block w [rq] r e
                  | Inr data \<Rightarrow>
                      \<lparr>response =
                         json_res data (status 200
                           (setHeader ''Cache-Control''
                              ''public, s-maxage=300, stale-while-revalidate=600'' r)),
                       log = [], calls = [rq]\<rparr>)))"

definition cors :: "res \<Rightarrow> res" where
  "cors r =
     setHeader ''Access-Control-Allow-Headers'' ''Content-Type''
       (setHeader ''Access-Control-Allow-Methods'' ''GET, OPTIONS''
          (setHeader ''Access-Control-Allow-Origin'' ''https://bshs-es.vercel.app'' r))"

definition handler :: "world \<Rightarrow> env \<Rightarrow> request \<Rightarrow> res \<Rightarrow> outcome" where
  "handler w process_env req res0 =
     (let r = cors res0 in
      if req_method req = ''OPTIONS'' then
        \<lparr>response = end_res (status 200 r), log = [], calls = []\<rparr>
      else if req_method req \<noteq> ''GET'' then
        \<lparr>response = json_res method_not_allowed_body (status 405 r), log = [], calls = []\<rparr>
      else
        let apiKey = process_env ''WEATHER_API_KEY'' in
        if \<not> truthy apiKey then
          \<lparr>response = json_res not_configured_body (status 500 r),
           log = console_error [LStr ''WEATHER_API_KEY environment variable not set''],
           calls = []\<rparr>
        else try_block w (the apiKey) r)"

section \<open>What of the upstream answer may reach the client\<close>

text \<open>
  The client's view of the outbound call: that something threw (the fetch, the reading of
  the body, or the parsing of a 2xx body), or the status of a non-2xx answer, or the data
  parsed from a 2xx answer. The view holds no error message, no stack, no body text of a
  failed or rejected answer, and nothing of the request, so nothing of the key.
\<close>

datatype upstream_view = Threw | ErrorStatus nat | Data json

definition client_view :: "world \<Rightarrow> fetch_outcome \<Rightarrow> upstream_view" where
  "client_view w out =
     (case out of
        FetchThrows e \<Rightarrow> Threw
      | FetchResponse st body \<Rightarrow>
          (case body of
             BodyFails e \<Rightarrow> Threw
           | BodyText t \<Rightarrow>
               if \<not> ok st then ErrorStatus st
               else (case json_parse w t of Inl e \<Rightarrow> Threw | Inr data \<Rightarrow> Data data)))"

text \<open>The body that belongs to a request method and a view, when the secret is configured.\<close>

definition client_payload :: "request \<Rightarrow> upstream_view \<Rightarrow> payload" where
  "client_payload req v =
     (if req_method req = ''OPTIONS'' then NoBody
      else if req_method req \<noteq> ''GET'' then JsonBody method_not_allowed_body
      else case v of
        Threw \<Rightarrow> JsonBody unavailable_body
      | ErrorStatus st \<Rightarrow> JsonBody (upstream_error_body st)
      | Data data \<Rightarrow> JsonBody data)"

section \<open>JSON text: JSON.parse and JSON.stringify\<close>

text \<open>
  \<^verbatim>\<open>weatherResponse.json()\<close> parses the body text and \<^verbatim>\<open>res.json(data)\<close> sends
  \<^verbatim>\<open>JSON.stringify(data)\<close>. Both belong to the runtime, not to the repository; they are
  modelled after the JSON grammar for a fragment of it: strings are byte strings with the
  two-character escapes (no \<^verbatim>\<open>\u\<close> escapes), numbers are integer literals of
  magnitude below \<open>2^53 = 9007199254740992\<close> (no fraction, no exponent). Text outside
  the fragment is reported as a failure, so the concrete parser is used at inputs inside
  the fragment only; the general theorems about the handler hold for every parser.
\<close>

definition dquote :: char where
  "dquote = CHR 0x22"

definition backslash :: char where
  "backslash = CHR 0x5C"










fun skip_ws :: "string \<Rightarrow> string" where
  "skip_ws [] = []"
| "skip_ws (c # cs) =
     (if c = CHR 0x20 \<or> c = CHR 0x09 \<or> c = CHR 0x0A \<or> c = CHR 0x0D then skip_ws cs
      else c # cs)"

definition unescape :: "char \<Rightarrow> char option" where
  "unescape e =
     (if e = dquote \<or> e = backslash \<or> e = CHR ''/'' then Some e
      else if e = CHR ''b'' then Some (CHR 0x08)
      else if e = CHR ''t'' then Some (CHR 0x09)
      else if e = CHR ''n'' then Some (CHR 0x0A)
      else if e = CHR ''f'' then Some (CHR 0x0C)
      else if e = CHR ''r'' then Some (CHR 0x0D)
      else None)"

text \<open>The characters of a string literal after its opening quote, and what follows it.\<close>

fun parse_chars :: "string \<Rightarrow> (string \<times> string) option" where
  "parse_chars [] = None"
| "parse_chars [c] = (if c = dquote then Some ([], []) else None)"
| "parse_chars (c # e # cs) =
     (if c = dquote then Some ([], e # cs)
      else if c = backslash then
        (case unescape e of
           None \<Rightarrow> None
         | Some d \<Rightarrow> map_option (apfst ((#) d)) (parse_chars cs))
      else if (of_char c :: nat) < 32 then None
      else map_option (apfst ((#) c)) (parse_chars (e # cs)))"

definition is_digit :: "char \<Rightarrow> bool" where
  "is_digit c = in_range CHR ''0'' CHR ''9'' c"

definition digits_value :: "string \<Rightarrow> int" where
  "digits_value ds = foldl (\<lambda>n c. 10 * n + (of_char c - 48)) 0 ds"

text \<open>An integer literal: \<^verbatim>\<open>-?(0|[1-9][0-9]*)\<close>, not continued by a fraction or exponent.\<close>

definition parse_number :: "string \<Rightarrow> (json \<times> string) option" where
  "parse_number s =
     (let neg = (s \<noteq> [] \<and> hd s = CHR ''-'');
          t = (if neg then tl s else s);
          ds = takeWhile is_digit t;
          r = dropWhile is_digit t
      in if ds = [] \<or> (hd ds = CHR ''0'' \<and> length ds > 1) then None
         else if r \<noteq> [] \<and> (hd r = CHR ''.'' \<or> hd r = CHR ''e'' \<or> hd r = CHR ''E'') then None
         else if digits_value ds \<ge> 9007199254740992 then None
         else Some (JNum (if neg then - digits_value ds else digits_value ds), r))"

text \<open>
  Property order of a parsed object: a repeated key keeps its place and takes the later
  value; keys that are array indices come first, in ascending order; the others follow
  in order of first appearance.
\<close>

definition is_array_index :: "string \<Rightarrow> bool" where
  "is_array_index k =
     (k \<noteq> [] \<and> list_all is_digit k \<and> (hd k \<noteq> CHR ''0'' \<or> length k = 1) \<and>
      digits_value k < 4294967295)"

fun insert_index :: "string \<Rightarrow> json \<Rightarrow> (string \<times> json) list \<Rightarrow> (string \<times> json) list" where
  "insert_index k v [] = [(k, v)]"
| "insert_index k v (m # ms) =
     (if is_array_index (fst m) \<and> digits_value (fst m) < digits_value k
      then m # insert_index k v ms else (k, v) # m # ms)"

definition define_property :: "string \<Rightarrow> json \<Rightarrow> (string \<times> json) list \<Rightarrow> (string \<times> json) list" where
  "define_property k v ms =
     (if k \<in> fst ` set ms then AList.update k v ms
      else if is_array_index k then insert_index k v ms
      else ms @ [(k, v)])"

text \<open>
  The recursive descent, with fuel for the nesting: \<open>parse_value\<close> reads one value,
  \<open>parse_elements\<close> the rest of an array after \<^verbatim>\<open>[\<close> or a comma, \<open>parse_members\<close> the
  rest of an object after \<^verbatim>\<open>{\<close> or a comma.
\<close>

fun parse_value :: "nat \<Rightarrow> string \<Rightarrow> (json \<times> string) option"
  and parse_elements :: "nat \<Rightarrow> json list \<Rightarrow> string \<Rightarrow> (json \<times> string) option"
  and parse_members :: "nat \<Rightarrow> (string \<times> json) list \<Rightarrow> string \<Rightarrow> (json \<times> string) option"
where
  "parse_value 0 s = None"
| "parse_value (Suc n) s =
     (let t = skip_ws s in
      if prefix ''null'' t then Some (JNull, drop 4 t)
      else if prefix ''true'' t then Some (JBool True, drop 4 t)
      else if prefix ''false'' t then Some (JBool False, drop 5 t)
      else case t of
        [] \<Rightarrow> None
      | c # cs \<Rightarrow>
          if c = dquote then
            (case parse_chars cs of None \<Rightarrow> None | Some (str, r) \<Rightarrow> Some (JStr str, r))
          else if c = CHR ''['' then
            (if prefix '']'' (skip_ws cs) then Some (JArr [], tl (skip_ws cs))
             else parse_elements n [] cs)
          else if c = CHR ''{'' then
            (if prefix ''}'' (skip_ws cs) then Some (JObj [], tl (skip_ws cs))
             else parse_members n [] cs)
          else parse_number t)"
| "parse_elements 0 acc s = None"
| "parse_elements (Suc n) acc s =
     (case parse_value n s of
        None \<Rightarrow> None
      | Some (v, r) \<Rightarrow>
          (case skip_ws r of
             [] \<Rightarrow> None
           | c # r1 \<Rightarrow>
               if c = CHR '','' then parse_elements n (acc @ [v]) r1
               else if c = CHR '']'' then Some (JArr (acc @ [v]), r1)
               else None))"
| "parse_members 0 acc s = None"
| "parse_members (Suc n) acc s =
     (case skip_ws s of
        [] \<Rightarrow> None
      | q # cs \<Rightarrow>
          if q \<noteq> dquote then None
          else
            (case parse_chars cs of
               None \<Rightarrow> None
             | Some (k, r) \<Rightarrow>
                 (case skip_ws r of
                    [] \<Rightarrow> None
                  | c # r1 \<Rightarrow>
                      if c \<noteq> CHR '':'' then None
                      else
                        (case parse_value n r1 of
                           None \<Rightarrow> None
                         | Some (v, r2) \<Rightarrow>
                             (case skip_ws r2 of
                                [] \<Rightarrow> None
                              | d # r3 \<Rightarrow>
                                  if d = CHR '','' then
                                    parse_members n (define_property k v acc) r3
                                  else if d = CHR ''}'' then
                                    Some (JObj (define_property k v acc), r3)
                                  else None)))))"

text \<open>The SyntaxError of a failed parse; the wording of its message is the engine's.\<close>

definition syntax_error :: js_error where
  "syntax_error = \<lparr>message = ''Unexpected token in JSON'', stack = ''SyntaxError''\<rparr>"

text \<open>
  Between two calls along one path of the descent at least one character is consumed on
  every second call, so twice the length of the text is fuel enough.
\<close>

definition JSON_parse :: "string \<Rightarrow> js_error + json" where
  "JSON_parse s =
     (case parse_value (2 * length s + 2) s of
        None \<Rightarrow> Inl syntax_error
      | Some (v, r) \<Rightarrow> if skip_ws r = [] then Inr v else Inl syntax_error)"

section \<open>Sample invocations\<close>

text \<open>An upstream that answers every call in the same way, on a platform with the JSON parser above.\<close>

definition upstream_answers :: "fetch_outcome \<Rightarrow> world" where
  "upstream_answers out =
     \<lparr>fetch = (\<lambda>rq. out), json_parse = JSON_parse, now_iso = ''2025-10-19T08:00:00.000Z''\<rparr>"

definition connection_reset :: js_error where
  "connection_reset = \<lparr>message = ''terminated'', stack = ''TypeError: terminated''\<rparr>"

text \<open>The network is down: \<^verbatim>\<open>fetch\<close> rejects.\<close>

definition offline_upstream :: world where
  "offline_upstream = upstream_answers (FetchThrows connection_reset)"

text \<open>The upstream answers 403 and the connection drops while its body is read.\<close>

definition dropped_upstream :: world where
  "dropped_upstream = upstream_answers (FetchResponse 403 (BodyFails connection_reset))"

text \<open>A gateway in front of the upstream answers 200 with a web page.\<close>

definition html_upstream :: world where
  "html_upstream = upstream_answers (FetchResponse 200 (BodyText ''<html>Bad Gateway</html>''))"

definition configured :: "string \<Rightarrow> env" where
  "configured k = [''WEATHER_API_KEY'' \<mapsto> k]"

definition GET :: request where
  "GET = \<lparr>req_method = ''GET''\<rparr>"

text \<open>An upstream that rejects every call and quotes the requested URL, key included, in its error text.\<close>

definition echoing_upstream :: world where
  "echoing_upstream =
     \<lparr>fetch = (\<lambda>rq. FetchResponse 403 (BodyText (''API key rejected: '' @ url rq))),
      json_parse = JSON_parse, now_iso = ''2025-10-19T08:00:00.000Z''\<rparr>"

definition POST :: request where
  "POST = \<lparr>req_method = ''POST''\<rparr>"

text \<open>A forecast body with a space after each colon, and the same value without the spaces.\<close>

definition spaced_forecast :: string where
  "spaced_forecast = ''{\"current\": {\"temp_c\": 28}}''"



definition forecast_upstream :: world where
  "forecast_upstream = upstream_answers (FetchResponse 200 (BodyText spaced_forecast))"

section \<open>The page's condition display: the keyword scan\<close>

text \<open>
  The page script itself (index.html) is not among the sources; its keyword scan is quoted
  in CURRENT_FLAWS.md (issue 5) and in the flaws report (issue 12):
  \<^verbatim>\<open>if (conditionLower.includes('cloudy')) {...} else if (conditionLower.includes('partly')) {...}\<close>
  followed by further blocks that the quotation leaves out. The message templates are
  elided there too, so they are parameters here, as is the rest of the chain.
\<close>

record display =
  icon :: string
  statusText :: string
  suspensionInfo :: string

text \<open>\<^verbatim>\<open>String.prototype.includes\<close>: the key occurs as a contiguous substring.\<close>

fun includes_str :: "string \<Rightarrow> string \<Rightarrow> bool" where
  "includes_str [] key = (key = [])"
| "includes_str (c # cs) key = (prefix key (c # cs) \<or> includes_str cs key)"

text \<open>
  \<^verbatim>\<open>toLowerCase\<close> on the bytes of a UTF-8 string: the letters A to Z are mapped, every
  other byte is kept. (No character outside ASCII lower-cases to a letter of
  \<^verbatim>\<open>cloudy\<close> or \<^verbatim>\<open>partly\<close>, so the two tests below see what the page sees.)
\<close>

definition toLowerCase :: "string \<Rightarrow> string" where
  "toLowerCase s =
     map (\<lambda>c. if in_range CHR ''A'' CHR ''Z'' c then char_of (of_char c + (32::nat)) else c) s"

text \<open>The two icons, as UTF-8: U+2601 U+FE0F (cloud) and U+26C5 (sun behind cloud).\<close>

definition cloud_icon :: string where
  "cloud_icon = [CHR 0xE2, CHR 0x98, CHR 0x81, CHR 0xEF, CHR 0xB8, CHR 0x8F]"

definition sun_behind_cloud_icon :: string where
  "sun_behind_cloud_icon = [CHR 0xE2, CHR 0x9B, CHR 0x85]"

definition keyword_scan :: "string \<Rightarrow> string \<Rightarrow> (string \<Rightarrow> display) \<Rightarrow> string \<Rightarrow> display" where
  "keyword_scan cloudy_template partly_template more_blocks condition =
     (let conditionLower = toLowerCase condition in
      if includes_str conditionLower ''cloudy'' then
        \<lparr>icon = cloud_icon, statusText = condition, suspensionInfo = cloudy_template\<rparr>
      else if includes_str conditionLower ''partly'' then
        \<lparr>icon = sun_behind_cloud_icon, statusText = condition,
         suspensionInfo = partly_template\<rparr>
      else more_blocks condition)"

text \<open>A stand-in for the blocks of the chain that the quotation leaves out.\<close>

definition default_block :: "string \<Rightarrow> display" where
  "default_block condition = \<lparr>icon = [], statusText = condition, suspensionInfo = []\<rparr>"

section \<open>Properties of the proxy handler\<close>

subsection \<open>The response object and the two blocks\<close>

lemma header_cors:
  "header (cors r) ''Access-Control-Allow-Origin'' = Some ''https://bshs-es.vercel.app''"
  "header (cors r) ''Access-Control-Allow-Methods'' = Some ''GET, OPTIONS''"
  "header (cors r) ''Access-Control-Allow-Headers'' = Some ''Content-Type''"
  by (simp_all add: header_def cors_def setHeader_def update_conv')

lemma header_status [simp]: "header (status n r) = header r"
  by (simp add: header_def status_def fun_eq_iff)

lemma header_json_res [simp]: "header (json_res j r) = header r"
  by (simp add: header_def json_res_def fun_eq_iff)

lemma header_end_res [simp]: "header (end_res r) = header r"
  by (simp add: header_def end_res_def fun_eq_iff)

lemma header_setHeader: "header (setHeader k v r) = (header r)(k \<mapsto> v)"
  by (simp add: header_def setHeader_def update_conv' fun_eq_iff)

lemma statusCode_simps [simp]:
  "statusCode (status n r) = n"
  "statusCode (json_res j r) = statusCode r"
  "statusCode (end_res r) = statusCode r"
  by (simp_all add: status_def json_res_def end_res_def)

lemma sent_simps [simp]:
  "sent (json_res j r) = Some (JsonBody j)"
  "sent (end_res r) = Some NoBody"
  by (simp_all add: json_res_def end_res_def)

lemma response_catch_block [simp]:
  "response (catch_block w cs r e) = json_res unavailable_body (status 500 r)"
  by (simp add: catch_block_def)

text \<open>A GET request with a truthy key goes into the \<^verbatim>\<open>try\<close> block.\<close>

lemma handler_GET_configured:
  "req_method req = ''GET'' \<Longrightarrow> process_env ''WEATHER_API_KEY'' = Some k \<Longrightarrow> k \<noteq> [] \<Longrightarrow>
   handler w process_env req res0 = try_block w k (cors res0)"
  by (simp add: handler_def)

lemma sample_requests [simp]:
  "req_method GET = ''GET''" "req_method POST = ''POST''"
  "configured k ''WEATHER_API_KEY'' = Some k"
  "fetch (upstream_answers out) rq = out"
  "json_parse (upstream_answers out) = JSON_parse"
  by (simp_all add: GET_def POST_def configured_def upstream_answers_def)



lemma JSON_parse_html: "JSON_parse ''<html>Bad Gateway</html>'' = Inl syntax_error"
  by code_simp

subsection \<open>Preflight and method check\<close>

text \<open>
  C7. Every OPTIONS request is answered with status 200 and an empty body, whatever the
  environment holds (also when the secret is absent): the credential is not looked at,
  nothing is logged and no outbound call is made.
\<close>

theorem options_preflight:
  "handler w process_env \<lparr>req_method = ''OPTIONS''\<rparr> res0 =
     \<lparr>response = end_res (status 200 (cors res0)), log = [], calls = []\<rparr>
   \<and> statusCode (response (handler w process_env \<lparr>req_method = ''OPTIONS''\<rparr> res0)) = 200
   \<and> sent (response (handler w process_env \<lparr>req_method = ''OPTIONS''\<rparr> res0)) = Some NoBody"
  by (simp add: handler_def)

text \<open>
  C6. A request whose method is neither GET nor OPTIONS is answered with status 405 and
  the structured body \<open>method_not_allowed_body\<close>, and no outbound call is made.
\<close>

theorem other_methods_rejected:
  assumes "req_method req \<noteq> ''GET''" and "req_method req \<noteq> ''OPTIONS''"
  shows "statusCode (response (handler w process_env req res0)) = 405
       \<and> sent (response (handler w process_env req res0)) = Some (JsonBody method_not_allowed_body)
       \<and> calls (handler w process_env req res0) = []"
  using assms by (simp add: handler_def)

theorem other_methods_rejected_witness:
  "req_method POST \<noteq> ''GET'' \<and> req_method POST \<noteq> ''OPTIONS''
   \<and> statusCode (response (handler forecast_upstream (configured ''k'') POST fresh_res)) = 405
   \<and> sent (response (handler forecast_upstream (configured ''k'') POST fresh_res))
       = Some (JsonBody method_not_allowed_body)
   \<and> calls (handler forecast_upstream (configured ''k'') POST fresh_res) = []"
  using other_methods_rejected [of POST forecast_upstream "configured ''k''" fresh_res]
  by simp

subsection \<open>The credential\<close>

text \<open>
  C3. A GET request that arrives while WEATHER_API_KEY is absent is answered with status
  500 and the generic body \<open>not_configured_body\<close>, and no outbound call is made.
\<close>

theorem missing_secret:
  assumes "req_method req = ''GET''" and "process_env ''WEATHER_API_KEY'' = None"
  shows "statusCode (response (handler w process_env req res0)) = 500
       \<and> sent (response (handler w process_env req res0)) = Some (JsonBody not_configured_body)
       \<and> calls (handler w process_env req res0) = []"
  using assms by (simp add: handler_def)

theorem missing_secret_witness:
  "req_method GET = ''GET'' \<and> (Map.empty :: env) ''WEATHER_API_KEY'' = None
   \<and> statusCode (response (handler forecast_upstream Map.empty GET fresh_res)) = 500
   \<and> sent (response (handler forecast_upstream Map.empty GET fresh_res))
       = Some (JsonBody not_configured_body)
   \<and> calls (handler forecast_upstream Map.empty GET fresh_res) = []"
  using missing_secret [of GET Map.empty forecast_upstream fresh_res]
  by simp

text \<open>
  C9. A falsy WEATHER_API_KEY (for an environment variable: the empty string) is treated
  exactly as an absent one: the whole outcome is the one of the environment without the
  variable, that is status 500 with \<open>not_configured_body\<close> and no outbound call.
\<close>

theorem falsy_secret_is_absent:
  assumes "req_method req = ''GET''" and "\<not> truthy (process_env ''WEATHER_API_KEY'')"
  shows "handler w process_env req res0
           = handler w (process_env(''WEATHER_API_KEY'' := None)) req res0
       \<and> statusCode (response (handler w process_env req res0)) = 500
       \<and> sent (response (handler w process_env req res0)) = Some (JsonBody not_configured_body)
       \<and> calls (handler w process_env req res0) = []"
  using assms by (simp add: handler_def)

theorem falsy_secret_is_absent_witness:
  "req_method GET = ''GET'' \<and> \<not> truthy (configured '''' ''WEATHER_API_KEY'')
   \<and> handler forecast_upstream (configured '''') GET fresh_res
       = handler forecast_upstream ((configured '''')(''WEATHER_API_KEY'' := None)) GET fresh_res
   \<and> statusCode (response (handler forecast_upstream (configured '''') GET fresh_res)) = 500
   \<and> sent (response (handler forecast_upstream (configured '''') GET fresh_res))
       = Some (JsonBody not_configured_body)
   \<and> calls (handler forecast_upstream (configured '''') GET fresh_res) = []"
proof -
  have m: "req_method GET = ''GET''" by simp
  have h: "\<not> truthy (configured '''' ''WEATHER_API_KEY'')" by simp
  show ?thesis
    using m h
      falsy_secret_is_absent [of GET "configured ''''" forecast_upstream fresh_res]
    by blast
qed

subsection \<open>CORS headers\<close>

text \<open>
  C10. Every response of the handler, on every path, carries the three CORS headers with
  their fixed values: they are set before the handler branches and nothing overwrites
  them.
\<close>

theorem cors_headers_on_every_response:
  "header (response (handler w process_env req res0)) ''Access-Control-Allow-Origin''
     = Some ''https://bshs-es.vercel.app''
   \<and> header (response (handler w process_env req res0)) ''Access-Control-Allow-Methods''
     = Some ''GET, OPTIONS''
   \<and> header (response (handler w process_env req res0)) ''Access-Control-Allow-Headers''
     = Some ''Content-Type''"
  by (simp add: handler_def try_block_def Let_def header_cors header_setHeader
           split: fetch_outcome.split body_read.split sum.split)

subsection \<open>Failures behind the fetch\<close>

text \<open>
  C8. When the outbound fetch throws, when reading the body of the answer throws, or when
  the body of a 2xx answer does not parse as JSON, the response is status 500 with the
  fixed body \<open>unavailable_body\<close>: nothing of the thrown error is in it.
\<close>

theorem exception_gives_generic_500:
  assumes "req_method req = ''GET''"
      and "process_env ''WEATHER_API_KEY'' = Some k" and "k \<noteq> []"
      and "(\<exists>e. fetch w (upstream_request k) = FetchThrows e)
         \<or> (\<exists>st e. fetch w (upstream_request k) = FetchResponse st (BodyFails e))
         \<or> (\<exists>st t e. fetch w (upstream_request k) = FetchResponse st (BodyText t)
                \<and> ok st \<and> json_parse w t = Inl e)"
  shows "response (handler w process_env req res0)
           = json_res unavailable_body (status 500 (cors res0))
       \<and> statusCode (response (handler w process_env req res0)) = 500
       \<and> sent (response (handler w process_env req res0)) = Some (JsonBody unavailable_body)"
  using assms by (auto simp add: handler_GET_configured try_block_def Let_def)

theorem exception_gives_generic_500_witness:
  "fetch html_upstream (upstream_request ''k'')
     = FetchResponse 200 (BodyText ''<html>Bad Gateway</html>'')
   \<and> ok 200
   \<and> json_parse html_upstream ''<html>Bad Gateway</html>'' = Inl syntax_error
   \<and> statusCode (response (handler html_upstream (configured ''k'') GET fresh_res)) = 500
   \<and> sent (response (handler html_upstream (configured ''k'') GET fresh_res))
       = Some (JsonBody unavailable_body)"
proof -
  have f: "fetch html_upstream (upstream_request ''k'')
             = FetchResponse 200 (BodyText ''<html>Bad Gateway</html>'')"
    by (simp add: html_upstream_def)
  have p: "json_parse html_upstream ''<html>Bad Gateway</html>'' = Inl syntax_error"
    by (simp add: html_upstream_def JSON_parse_html)
  have o: "ok 200" by (simp add: ok_def)
  from f p o have "\<exists>st t e. fetch html_upstream (upstream_request ''k'') = FetchResponse st (BodyText t)
                \<and> ok st \<and> json_parse html_upstream t = Inl e"
    by blast
  then show ?thesis
    using f p o
      exception_gives_generic_500 [of GET "configured ''k''" "''k''" html_upstream fresh_res]
    by simp
qed

text \<open>
  C4, as stated, fails when the error body cannot be read: the upstream answers 403, the
  connection drops while \<^verbatim>\<open>weatherResponse.text()\<close> reads the body, and the handler
  answers 500 with \<open>unavailable_body\<close> instead of relaying the 403.
\<close>

theorem error_status_lost_when_body_unreadable:
  "fetch dropped_upstream (upstream_request ''k'') = FetchResponse 403 (BodyFails connection_reset)
   \<and> \<not> ok 403
   \<and> statusCode (response (handler dropped_upstream (configured ''k'') GET fresh_res)) = 500
   \<and> statusCode (response (handler dropped_upstream (configured ''k'') GET fresh_res)) \<noteq> 403
   \<and> sent (response (handler dropped_upstream (configured ''k'') GET fresh_res))
       = Some (JsonBody unavailable_body)"
  by (simp add: handler_GET_configured try_block_def dropped_upstream_def ok_def)

text \<open>
  C4, amended. When the upstream fetch completes with a non-2xx status, the response is
  decided by that status and by whether the error body could be read, never by its text:
  if the body was read, the response has the upstream's status code and the fixed body
  \<open>upstream_error_body\<close> (error, message, status); if reading it threw, the response
  is status 500 with \<open>unavailable_body\<close>.
\<close>

theorem upstream_error_relayed:
  assumes "req_method req = ''GET''"
      and "process_env ''WEATHER_API_KEY'' = Some k" and "k \<noteq> []"
      and "fetch w (upstream_request k) = FetchResponse st body"
      and "\<not> ok st"
  shows "response (handler w process_env req res0) =
           (case body of
              BodyText errorText \<Rightarrow> json_res (upstream_error_body st) (status st (cors res0))
            | BodyFails e \<Rightarrow> json_res unavailable_body (status 500 (cors res0)))"
  using assms
  by (simp add: handler_GET_configured try_block_def Let_def split: body_read.split)

theorem upstream_error_relayed_witness:
  "req_method GET = ''GET'' \<and> configured ''k'' ''WEATHER_API_KEY'' = Some ''k'' \<and> ''k'' \<noteq> []
   \<and> fetch echoing_upstream (upstream_request ''k'')
       = FetchResponse 403 (BodyText (''API key rejected: '' @ url (upstream_request ''k'')))
   \<and> \<not> ok 403
   \<and> response (handler echoing_upstream (configured ''k'') GET fresh_res)
       = json_res (upstream_error_body 403) (status 403 (cors fresh_res))"
proof -
  have f: "fetch echoing_upstream (upstream_request ''k'')
             = FetchResponse 403 (BodyText (''API key rejected: '' @ url (upstream_request ''k'')))"
    by (simp add: echoing_upstream_def)
  have o: "\<not> ok 403" by (simp add: ok_def)
  show ?thesis
    using f o
      upstream_error_relayed [of GET "configured ''k''" "''k''" echoing_upstream 403
        "BodyText (''API key rejected: '' @ url (upstream_request ''k''))" fresh_res]
    by simp
qed

subsection \<open>Success\<close>




subsection \<open>What the client can learn\<close>

lemma response_try_block:
  "response (try_block w k r) =
     (case client_view w (fetch w (upstream_request k)) of
        Threw \<Rightarrow> json_res unavailable_body (status 500 r)
      | ErrorStatus st \<Rightarrow> json_res (upstream_error_body st) (status st r)
      | Data data \<Rightarrow>
          json_res data (status 200
            (setHeader ''Cache-Control'' ''public, s-maxage=300, stale-while-revalidate=600'' r)))"
  by (simp add: try_block_def client_view_def Let_def
        split: fetch_outcome.split body_read.split sum.split)

text \<open>
  C5. Take two executions on the same request with configured secrets \<open>k1\<close> and
  \<open>k2\<close>, on any two platforms, that take the same path: the request is not a GET, or
  the client's views of the two upstream answers agree (both runs threw somewhere, or both
  got the same non-2xx status, or both parsed the same data). The secrets, the thrown
  errors with their messages and stacks, the raw text of a non-2xx body, an unparsable
  2xx body and the clocks may all differ. Then the two responses are identical, and the
  body is the one fixed by the method and the view: empty for OPTIONS,
  \<open>method_not_allowed_body\<close> for another method, \<open>unavailable_body\<close> where something
  threw, \<open>upstream_error_body\<close> of the status for a non-2xx answer.
\<close>

theorem secret_and_detail_never_reach_client:
  assumes "process_env1 ''WEATHER_API_KEY'' = Some k1" and "k1 \<noteq> []"
      and "process_env2 ''WEATHER_API_KEY'' = Some k2" and "k2 \<noteq> []"
      and "req_method req \<noteq> ''GET''
           \<or> client_view w1 (fetch w1 (upstream_request k1))
               = client_view w2 (fetch w2 (upstream_request k2))"
  shows "response (handler w1 process_env1 req res0) = response (handler w2 process_env2 req res0)
       \<and> sent (response (handler w1 process_env1 req res0))
           = Some (client_payload req (client_view w1 (fetch w1 (upstream_request k1))))"
proof (cases "req_method req = ''GET''")
  case False
  then show ?thesis by (simp add: handler_def Let_def client_payload_def)
next
  case True
  with assms have v: "client_view w1 (fetch w1 (upstream_request k1))
                        = client_view w2 (fetch w2 (upstream_request k2))"
    by simp
  have h1: "handler w1 process_env1 req res0 = try_block w1 k1 (cors res0)"
    using True assms by (simp add: handler_GET_configured)
  have h2: "handler w2 process_env2 req res0 = try_block w2 k2 (cors res0)"
    using True assms by (simp add: handler_GET_configured)
  have same: "response (handler w1 process_env1 req res0)
                = response (handler w2 process_env2 req res0)"
    by (simp add: h1 h2 response_try_block v)
  have body: "sent (response (handler w1 process_env1 req res0))
                = Some (client_payload req (client_view w1 (fetch w1 (upstream_request k1))))"
    using True
    by (simp add: h1 response_try_block client_payload_def split: upstream_view.split)
  from same body show ?thesis by simp
qed

theorem secret_and_detail_never_reach_client_witness:
  "configured ''key-one'' ''WEATHER_API_KEY'' = Some ''key-one'' \<and> ''key-one'' \<noteq> []
   \<and> configured ''key-two'' ''WEATHER_API_KEY'' = Some ''key-two'' \<and> ''key-two'' \<noteq> []
   \<and> fetch html_upstream (upstream_request ''key-one'')
       = FetchResponse 200 (BodyText ''<html>Bad Gateway</html>'')
   \<and> fetch offline_upstream (upstream_request ''key-two'') = FetchThrows connection_reset
   \<and> client_view html_upstream (fetch html_upstream (upstream_request ''key-one'')) = Threw
   \<and> client_view offline_upstream (fetch offline_upstream (upstream_request ''key-two'')) = Threw
   \<and> response (handler html_upstream (configured ''key-one'') GET fresh_res)
       = response (handler offline_upstream (configured ''key-two'') GET fresh_res)
   \<and> sent (response (handler html_upstream (configured ''key-one'') GET fresh_res))
       = Some (JsonBody unavailable_body)"
proof -
  have f1: "fetch html_upstream (upstream_request ''key-one'')
              = FetchResponse 200 (BodyText ''<html>Bad Gateway</html>'')"
    by (simp add: html_upstream_def)
  have f2: "fetch offline_upstream (upstream_request ''key-two'') = FetchThrows connection_reset"
    by (simp add: offline_upstream_def)
  have v1: "client_view html_upstream (fetch html_upstream (upstream_request ''key-one'')) = Threw"
    by (simp add: html_upstream_def client_view_def ok_def JSON_parse_html)
  have v2: "client_view offline_upstream (fetch offline_upstream (upstream_request ''key-two''))
              = Threw"
    by (simp add: offline_upstream_def client_view_def)
  have p: "client_payload GET Threw = JsonBody unavailable_body"
    by (simp add: client_payload_def)
  have r: "response (handler html_upstream (configured ''key-one'') GET fresh_res)
             = response (handler offline_upstream (configured ''key-two'') GET fresh_res)
         \<and> sent (response (handler html_upstream (configured ''key-one'') GET fresh_res))
             = Some (client_payload GET
                 (client_view html_upstream (fetch html_upstream (upstream_request ''key-one''))))"
    by (rule secret_and_detail_never_reach_client [of "configured ''key-one''" "''key-one''"
          "configured ''key-two''" "''key-two''" GET html_upstream offline_upstream fresh_res])
       (simp_all add: v1 v2)
  have r1: "response (handler html_upstream (configured ''key-one'') GET fresh_res)
              = response (handler offline_upstream (configured ''key-two'') GET fresh_res)"
    using r by (rule conjunct1)
  have r2: "sent (response (handler html_upstream (configured ''key-one'') GET fresh_res))
              = Some (JsonBody unavailable_body)"
    using conjunct2 [OF r] by (simp only: v1 p)
  show ?thesis
    by (intro conjI; (rule f1 f2 v1 v2 r1 r2 | simp))
qed

section \<open>Properties of the keyword scan\<close>

lemma includes_str_sublist: "includes_str s key = sublist key s"
  by (induction s) (simp_all add: sublist_Cons_right)

lemma includes_partly_cloudy:
  assumes "includes_str s ''partly cloudy''"
  shows "includes_str s ''cloudy''"
proof -
  have "sublist ''cloudy'' (''partly '' @ ''cloudy'')"
    by (rule sublist_append_leftI)
  then have "sublist ''cloudy'' ''partly cloudy''" by simp
  moreover from assms have "sublist ''partly cloudy'' s"
    by (simp only: includes_str_sublist)
  ultimately have "sublist ''cloudy'' s"
    by (rule sublist_order.order.trans)
  then show ?thesis
    by (simp only: includes_str_sublist)
qed

lemma lower_Partly_cloudy: "toLowerCase ''Partly cloudy'' = ''partly cloudy''"
  by code_simp

text \<open>
  C1. A condition text that contains \<^verbatim>\<open>partly cloudy\<close> is expected to get the mapping
  of the \<^verbatim>\<open>partly\<close> block. In the chain as quoted, the \<^verbatim>\<open>cloudy\<close> test stands first,
  and a text that contains \<^verbatim>\<open>partly cloudy\<close> contains \<^verbatim>\<open>cloudy\<close>: first match wins,
  so every such text gets the cloud icon and the cloudy template, and the block with the
  sun-behind-cloud icon is never reached for it.
\<close>

theorem partly_cloudy_selects_cloudy:
  assumes "includes_str (toLowerCase condition) ''partly cloudy''"
  shows "keyword_scan cloudy_template partly_template more_blocks condition =
           \<lparr>icon = cloud_icon, statusText = condition, suspensionInfo = cloudy_template\<rparr>"
  using includes_partly_cloudy [OF assms] by (simp add: keyword_scan_def)

theorem partly_cloudy_selects_cloudy_witness:
  "includes_str (toLowerCase ''Partly cloudy'') ''partly cloudy''
   \<and> icon (keyword_scan ''cloudy template'' ''partly template'' default_block ''Partly cloudy'')
       = cloud_icon
   \<and> icon (keyword_scan ''cloudy template'' ''partly template'' default_block ''Partly cloudy'')
       \<noteq> sun_behind_cloud_icon"
proof -
  have h: "includes_str (toLowerCase ''Partly cloudy'') ''partly cloudy''"
    unfolding lower_Partly_cloudy by simp
  show ?thesis
    using h partly_cloudy_selects_cloudy [OF h, of "''cloudy template''" "''partly template''"
        default_block]
    by (simp add: cloud_icon_def sun_behind_cloud_icon_def)
qed

end
